theory Spec2Isabelle
  imports Main "HOL-Library.Monad_Syntax"
begin

section \<open>Strings of the script\<close>

text \<open>
  The script \<^verbatim>\<open>static/script.js\<close> is a UTF-8 file. A JavaScript string is modelled as
  the list of the bytes of its UTF-8 encoding (\<^typ>\<open>string\<close>); the script never measures
  a string, it only concatenates and compares them, and both are the same on bytes as on
  code units. The pictographs of the status texts are named after their code points.
\<close>

definition studio_microphone :: string \<comment> \<open>U+1F399 U+FE0F\<close> where
  "studio_microphone = [CHR 0xF0, CHR 0x9F, CHR 0x8E, CHR 0x99, CHR 0xEF, CHR 0xB8, CHR 0x8F]"

definition stop_sign :: string \<comment> \<open>U+1F6D1\<close> where
  "stop_sign = [CHR 0xF0, CHR 0x9F, CHR 0x9B, CHR 0x91]"

definition hourglass :: string \<comment> \<open>U+23F3\<close> where
  "hourglass = [CHR 0xE2, CHR 0x8F, CHR 0xB3]"

definition microphone :: string \<comment> \<open>U+1F3A4\<close> where
  "microphone = [CHR 0xF0, CHR 0x9F, CHR 0x8E, CHR 0xA4]"

definition warning_sign :: string \<comment> \<open>U+26A0 U+FE0F\<close> where
  "warning_sign = [CHR 0xE2, CHR 0x9A, CHR 0xA0, CHR 0xEF, CHR 0xB8, CHR 0x8F]"

definition inbox_tray :: string \<comment> \<open>U+1F4E5\<close> where
  "inbox_tray = [CHR 0xF0, CHR 0x9F, CHR 0x93, CHR 0xA5]"

definition check_mark :: string \<comment> \<open>U+2705\<close> where
  "check_mark = [CHR 0xE2, CHR 0x9C, CHR 0x85]"

definition thinking_face :: string \<comment> \<open>U+1F914\<close> where
  "thinking_face = [CHR 0xF0, CHR 0x9F, CHR 0xA4, CHR 0x94]"

definition cross_mark :: string \<comment> \<open>U+274C\<close> where
  "cross_mark = [CHR 0xE2, CHR 0x9D, CHR 0x8C]"

definition magnifying_glass :: string \<comment> \<open>U+1F50E\<close> where
  "magnifying_glass = [CHR 0xF0, CHR 0x9F, CHR 0x94, CHR 0x8E]"

definition dquote :: string \<comment> \<open>the double quote inside a template literal\<close> where
  "dquote = [CHR 0x22]"

text \<open>
  \<^verbatim>\<open>${data.found_items.length}\<close>: the length of an array is a non-negative integer
  below \<open>2^32\<close>, which JavaScript prints in decimal.
\<close>

fun decimal :: "nat \<Rightarrow> string" where
  "decimal n =
     (if n < 10 then [char_of (48 + n)]
      else decimal (n div 10) @ [char_of (48 + n mod 10)])"

declare decimal.simps [simp del]

text \<open>
  A value that is a string or a number (the quantity of a shopping item). The type
  \<open>'n\<close> stands for JavaScript's numbers; the template literal applies \<open>ToString\<close>,
  which is the identity on a string and \<open>Number::toString\<close> on a number. The latter
  prints a floating point number and is a parameter of the model.
\<close>

datatype 'n jsval = Str string | Num 'n

fun ToString :: "('n \<Rightarrow> string) \<Rightarrow> 'n jsval \<Rightarrow> string" where
  "ToString numberToString (Str s) = s"
| "ToString numberToString (Num n) = numberToString n"


section \<open>The document\<close>

text \<open>
  An element of the page is known to the script by its children only. A node is a text
  node or an element with a tag name and children.
\<close>

datatype node = Text string | Element string "node list"

definition createElement :: "string \<Rightarrow> node" where
  "createElement tag = Element tag []"

text \<open>
  The setter of \<^verbatim>\<open>textContent\<close> replaces the children by one text node, or by nothing
  when the string is empty. No markup is read.
\<close>

fun set_textContent :: "string \<Rightarrow> node \<Rightarrow> node" where
  "set_textContent s (Element tag kids) = Element tag (if s = [] then [] else [Text s])"
| "set_textContent s (Text t) = Text s"

definition appendChild :: "node \<Rightarrow> node list \<Rightarrow> node list" where
  "appendChild child kids = kids @ [child]"

subsection \<open>Reading and writing \<^verbatim>\<open>innerHTML\<close>\<close>

text \<open>
  The setter of \<^verbatim>\<open>innerHTML\<close> parses markup. The parser below reads the fragment of
  HTML that the script writes: text without character references, and the properly nested
  elements \<^verbatim>\<open><li>\<close> (at the top of the container) and \<^verbatim>\<open><strong>\<close>, without attributes.
  On any other input it answers \<open>None\<close>: the model does not say what the browser builds
  from it. The tree builder keeps the stack of the open elements, innermost first, each
  with the children its parent had collected before it opened.
\<close>

datatype lexer = Data string | Tag string

definition flush :: "string \<Rightarrow> node list \<Rightarrow> node list" where
  "flush acc kids = (if acc = [] then kids else kids @ [Text acc])"

definition data_char :: "char \<Rightarrow> bool" where
  "data_char c \<longleftrightarrow> c \<noteq> CHR ''&'' \<and> c \<noteq> CHR 0x00 \<and> c \<noteq> CHR 0x0D"

fun parse_from :: "(string \<times> node list) list \<Rightarrow> node list \<Rightarrow> lexer \<Rightarrow> string \<Rightarrow> node list option" where
  "parse_from stk kids (Data acc) [] = (if stk = [] then Some (flush acc kids) else None)"
| "parse_from stk kids (Tag nm) [] = None"
| "parse_from stk kids (Data acc) (c # cs) =
     (if c = CHR ''<'' then parse_from stk (flush acc kids) (Tag []) cs
      else if data_char c then parse_from stk kids (Data (acc @ [c])) cs
      else None)"
| "parse_from stk kids (Tag nm) (c # cs) =
     (if c \<noteq> CHR ''>'' then parse_from stk kids (Tag (nm @ [c])) cs
      else if nm = ''li'' \<and> stk = [] \<or> nm = ''strong'' then parse_from ((nm, kids) # stk) [] (Data []) cs
      else (case stk of
              [] \<Rightarrow> None
            | (t, older) # rest \<Rightarrow>
                if nm = CHR ''/'' # t then parse_from rest (older @ [Element t kids]) (Data []) cs
                else None))"

definition parseHTML :: "string \<Rightarrow> node list option" where
  "parseHTML markup = parse_from [] [] (Data []) markup"

text \<open>
  The getter of \<^verbatim>\<open>innerHTML\<close> serialises the children: text is escaped (the no-break
  space U+00A0 is the bytes \<open>C2 A0\<close>), an element is written with its tags.
\<close>

fun escape :: "string \<Rightarrow> string" where
  "escape [] = []"
| "escape [c] =
     (if c = CHR ''&'' then ''&amp;'' else if c = CHR ''<'' then ''&lt;''
      else if c = CHR ''>'' then ''&gt;'' else [c])"
| "escape (c # d # cs) =
     (if c = CHR 0xC2 \<and> d = CHR 0xA0 then ''&nbsp;'' @ escape cs
      else if c = CHR ''&'' then ''&amp;'' @ escape (d # cs)
      else if c = CHR ''<'' then ''&lt;'' @ escape (d # cs)
      else if c = CHR ''>'' then ''&gt;'' @ escape (d # cs)
      else c # escape (d # cs))"

fun serialize :: "node \<Rightarrow> string" where
  "serialize (Text s) = escape s"
| "serialize (Element tag kids) =
     ''<'' @ tag @ ''>'' @ concat (map serialize kids) @ ''</'' @ tag @ ''>''"

definition innerHTML :: "node list \<Rightarrow> string" where
  "innerHTML kids = concat (map serialize kids)"


section \<open>Data of the interface\<close>

text \<open>
  The responses of the four endpoints, at the shapes of the interface: the body that
  \<^verbatim>\<open>res.json()\<close> yields. The fields \<^verbatim>\<open>name\<close> of an item and of a product are
  \<open>item_name\<close> and \<open>product_name\<close> here, and \<^verbatim>\<open>status\<close> of a search response is
  \<open>search_status\<close>. An optional field is an \<open>option\<close>; an array, also an empty one,
  is a true value in a condition.
\<close>

record command_result =
  status :: string
  message :: string
  substitute_suggestions :: "string list option"

record 'n product =
  product_name :: string
  brand :: string
  price :: 'n

record 'n search_response =
  search_status :: string
  found_items :: "'n product list"

record 'n item =
  item_name :: string
  quantity :: "'n jsval"

record suggestion_set =
  seasonal_suggestions :: "string list"
  frequently_bought :: "string list"

datatype 'n response =
    CommandResult command_result
  | SearchResponse "'n search_response"
  | Items "'n item list"
  | Suggestions suggestion_set

text \<open>
  The promise \<^verbatim>\<open>fetch(...).then((res) => res.json())\<close> is rejected when the request
  fails or the body is not JSON, and is fulfilled with the parsed body otherwise.
\<close>

datatype 'a outcome = Rejected | Fulfilled 'a


section \<open>The state of the page\<close>

record SpeechRecognition =
  continuous :: bool
  interimResults :: bool
  lang :: string

text \<open>
  What the script does to the world outside the page is recorded: the calls of
  \<^verbatim>\<open>recognition.start()\<close> (with the attributes of the object at the call) and
  \<^verbatim>\<open>recognition.stop()\<close>, the requests sent and not yet answered together with the
  callback that waits for the answer, the lines of \<^verbatim>\<open>console.error\<close> and the alerts.
  The body of a \<^verbatim>\<open>POST\<close> is \<^verbatim>\<open>JSON.stringify({ text, lang })\<close>:
  the text, then the language (the variable \<^verbatim>\<open>lang\<close> of the script is \<open>language\<close> here).
\<close>

datatype engine_call = Start SpeechRecognition | Stop

datatype request = GET string | POST string string string

datatype callback =
    VoiceCommandThen string string
  | SearchThen string string
  | ListThen
  | SuggestionsThen

record page =
  startMicButton :: string
  startMic_disabled :: bool
  languageSelect :: string
  shoppingList :: "node list"
  suggestionsList :: "node list"
  searchResults :: "node list"
  statusMessage :: string
  recognition :: "SpeechRecognition option"
  listening :: bool
  engine_calls :: "engine_call list"
  pending :: "(request \<times> callback) list"
  console :: "string list"
  alerts :: "string list"

datatype error = TypeError

definition fetch :: "request \<Rightarrow> callback \<Rightarrow> page \<Rightarrow> page" where
  "fetch req k st = st\<lparr>pending := pending st @ [(req, k)]\<rparr>"

definition forEach :: "('a \<Rightarrow> 's \<Rightarrow> 's) \<Rightarrow> 'a list \<Rightarrow> 's \<Rightarrow> 's" where
  "forEach f xs st = fold f xs st"


section \<open>Speech capture\<close>

definition onstart :: "page \<Rightarrow> page" where
  "onstart st =
     st\<lparr>statusMessage := studio_microphone @ '' Listening...'',
        startMicButton := stop_sign @ '' Stop'',
        listening := True\<rparr>"

definition onend :: "page \<Rightarrow> page" where
  "onend st =
     st\<lparr>statusMessage := hourglass @ '' Processing...'',
        startMicButton := microphone @ '' Start Listening'',
        listening := False\<rparr>"

definition onerror :: "string \<Rightarrow> page \<Rightarrow> page" where
  "onerror event_error st =
     st\<lparr>statusMessage := warning_sign @ '' Error: '' @ event_error,
        listening := False\<rparr>"

text \<open>
  The click handler of the button. Without a recognition object (the variable is
  \<^verbatim>\<open>undefined\<close>) both branches raise a \<^verbatim>\<open>TypeError\<close>.
\<close>

definition click :: "page \<Rightarrow> error + page" where
  "click st =
     (if listening st then
        (case recognition st of
           None \<Rightarrow> Inl TypeError
         | Some r \<Rightarrow> Inr (st\<lparr>engine_calls := engine_calls st @ [Stop]\<rparr>))
      else
        (case recognition st of
           None \<Rightarrow> Inl TypeError
         | Some r \<Rightarrow>
             let r' = r\<lparr>lang := (if languageSelect st = ''es'' then ''es-ES'' else ''en-US'')\<rparr>
             in Inr (st\<lparr>recognition := Some r',
                        engine_calls := engine_calls st @ [Start r']\<rparr>)))"


section \<open>View renderers\<close>

definition updateSuggestions :: "string list \<Rightarrow> string \<Rightarrow> page \<Rightarrow> page option" where
  "updateSuggestions items heading st = do {
     kids \<leftarrow> parseHTML (if heading \<noteq> [] then ''<li><strong>'' @ heading @ ''</strong></li>'' else []);
     let st = st\<lparr>suggestionsList := kids\<rparr>;
     if length items = 0 then do {
       kids \<leftarrow> parseHTML (innerHTML (suggestionsList st) @ ''<li>No suggestions available.</li>'');
       Some (st\<lparr>suggestionsList := kids\<rparr>)
     } else
       Some (forEach (\<lambda>item st.
               let li = createElement ''li'';
                   li = set_textContent item li
               in st\<lparr>suggestionsList := appendChild li (suggestionsList st)\<rparr>) items st)
   }"

definition updateSearchResults :: "('n \<Rightarrow> nat \<Rightarrow> string) \<Rightarrow> 'n product list \<Rightarrow> page \<Rightarrow> page option" where
  "updateSearchResults toFixed results st = do {
     kids \<leftarrow> parseHTML [];
     let st = st\<lparr>searchResults := kids\<rparr>;
     Some (forEach (\<lambda>product st.
             let li = createElement ''li'';
                 li = set_textContent
                        (product_name product @ '' ('' @ brand product @ '') - $''
                           @ toFixed (price product) 2) li
             in st\<lparr>searchResults := appendChild li (searchResults st)\<rparr>) results st)
   }"

definition refreshShoppingList :: "page \<Rightarrow> page" where
  "refreshShoppingList st = fetch (GET ''/list'') ListThen st"

definition refreshShoppingList_then :: "('n \<Rightarrow> string) \<Rightarrow> 'n item list \<Rightarrow> page \<Rightarrow> page option" where
  "refreshShoppingList_then numberToString items st = do {
     kids \<leftarrow> parseHTML [];
     let st = st\<lparr>shoppingList := kids\<rparr>;
     if length items = 0 then do {
       kids \<leftarrow> parseHTML ''<li>No items yet.</li>'';
       Some (st\<lparr>shoppingList := kids\<rparr>)
     } else
       Some (forEach (\<lambda>item st.
               let li = createElement ''li'';
                   li = set_textContent
                          (item_name item @ '' ('' @ ToString numberToString (quantity item) @ '')'') li
               in st\<lparr>shoppingList := appendChild li (shoppingList st)\<rparr>) items st)
   }"

definition loadSuggestions :: "page \<Rightarrow> page" where
  "loadSuggestions st = fetch (GET ''/suggestions'') SuggestionsThen st"

definition loadSuggestions_then :: "suggestion_set \<Rightarrow> page \<Rightarrow> page option" where
  "loadSuggestions_then data st =
     (let allSuggestions = seasonal_suggestions data @ frequently_bought data
      in updateSuggestions allSuggestions ''Smart Suggestions:'' st)"


section \<open>Command router\<close>

definition searchProducts :: "string \<Rightarrow> string \<Rightarrow> page \<Rightarrow> page" where
  "searchProducts text language st = fetch (POST ''/search'' text language) (SearchThen text language) st"

definition searchProducts_then ::
  "('n \<Rightarrow> nat \<Rightarrow> string) \<Rightarrow> string \<Rightarrow> 'n search_response \<Rightarrow> page \<Rightarrow> page option" where
  "searchProducts_then toFixed text data st =
     (if search_status data = ''success'' \<and> length (found_items data) > 0 then do {
        st \<leftarrow> updateSearchResults toFixed (found_items data) st;
        Some (st\<lparr>statusMessage :=
                magnifying_glass @ '' Found '' @ decimal (length (found_items data)) @ '' result(s).''\<rparr>)
      } else do {
        kids \<leftarrow> parseHTML ''<li>No results found.</li>'';
        let st = st\<lparr>searchResults := kids\<rparr>;
        Some (st\<lparr>statusMessage :=
                cross_mark @ '' Nothing found for: '' @ dquote @ text @ dquote\<rparr>)
      })"

definition searchProducts_catch :: "page \<Rightarrow> page" where
  "searchProducts_catch st =
     (let st = st\<lparr>console := console st @ [''Search error:'']\<rparr>
      in st\<lparr>statusMessage := cross_mark @ '' Search failed.''\<rparr>)"

definition processVoiceCommand :: "string \<Rightarrow> page \<Rightarrow> page" where
  "processVoiceCommand text st =
     (let language = languageSelect st
      in fetch (POST ''/voice-command'' text language) (VoiceCommandThen text language) st)"

definition processVoiceCommand_then :: "string \<Rightarrow> string \<Rightarrow> command_result \<Rightarrow> page \<Rightarrow> page option" where
  "processVoiceCommand_then text language data st =
     (if status data = ''success'' then do {
        let st = st\<lparr>statusMessage := check_mark @ '' '' @ message data\<rparr>;
        st \<leftarrow> (case substitute_suggestions data of
                 Some subs \<Rightarrow> updateSuggestions subs ''Suggested substitutes:'' st
               | None \<Rightarrow> Some st);
        Some (refreshShoppingList st)
      } else do {
        let st = st\<lparr>statusMessage := thinking_face @ '' Trying search instead...''\<rparr>;
        Some (searchProducts text language st)
      })"

definition processVoiceCommand_catch :: "page \<Rightarrow> page" where
  "processVoiceCommand_catch st =
     (let st = st\<lparr>console := console st @ [''Error handling command:'']\<rparr>
      in st\<lparr>statusMessage := cross_mark @ '' Failed to process voice command.''\<rparr>)"

text \<open>
  \<^verbatim>\<open>recognition.onresult\<close>; \<open>trim\<close> is \<^verbatim>\<open>String.prototype.trim\<close>.
\<close>

definition onresult :: "(string \<Rightarrow> string) \<Rightarrow> string \<Rightarrow> page \<Rightarrow> page" where
  "onresult trim event_transcript st =
     (let transcript = trim event_transcript;
          st = st\<lparr>statusMessage := inbox_tray @ '' Heard: '' @ dquote @ transcript @ dquote\<rparr>
      in processVoiceCommand transcript st)"


section \<open>The script and the event loop\<close>

text \<open>
  Loading the script on a page \<open>doc\<close>. The argument \<open>ctor\<close> is \<open>None\<close> when the
  window has no speech recognition constructor, and otherwise the object that
  \<^verbatim>\<open>new SpeechRecognition()\<close> returns. Nothing has been sent, called or logged before.
\<close>

definition load :: "SpeechRecognition option \<Rightarrow> page \<Rightarrow> page" where
  "load ctor doc =
     (let st = doc\<lparr>recognition := None, listening := False,
                    engine_calls := [], pending := [], console := [], alerts := []\<rparr>;
          st = (case ctor of
                  Some r \<Rightarrow> st\<lparr>recognition := Some (r\<lparr>continuous := False, interimResults := False\<rparr>)\<rparr>
                | None \<Rightarrow>
                    st\<lparr>alerts := alerts st @ [''Speech Recognition not supported. Use Chrome or Edge.''],
                       startMic_disabled := True\<rparr>);
          st = refreshShoppingList st
      in loadSuggestions st)"

text \<open>
  A settled request runs the callbacks of its promise chain. The chains of
  \<^verbatim>\<open>processVoiceCommand\<close> and \<^verbatim>\<open>searchProducts\<close> end in a \<^verbatim>\<open>catch\<close>; those of
  \<^verbatim>\<open>refreshShoppingList\<close> and \<^verbatim>\<open>loadSuggestions\<close> do not, so that a rejection runs
  no code of the script. A body of another endpoint's shape is outside the model.
\<close>

fun settle ::
  "('n \<Rightarrow> string) \<Rightarrow> ('n \<Rightarrow> nat \<Rightarrow> string) \<Rightarrow> callback \<Rightarrow> 'n response outcome \<Rightarrow> page \<Rightarrow> page option" where
  "settle numberToString toFixed (VoiceCommandThen text language) (Fulfilled (CommandResult data)) st =
     processVoiceCommand_then text language data st"
| "settle numberToString toFixed (VoiceCommandThen text language) Rejected st =
     Some (processVoiceCommand_catch st)"
| "settle numberToString toFixed (SearchThen text language) (Fulfilled (SearchResponse data)) st =
     searchProducts_then toFixed text data st"
| "settle numberToString toFixed (SearchThen text language) Rejected st =
     Some (searchProducts_catch st)"
| "settle numberToString toFixed ListThen (Fulfilled (Items items)) st =
     refreshShoppingList_then numberToString items st"
| "settle numberToString toFixed ListThen Rejected st = Some st"
| "settle numberToString toFixed SuggestionsThen (Fulfilled (Suggestions data)) st =
     loadSuggestions_then data st"
| "settle numberToString toFixed SuggestionsThen Rejected st = Some st"
| "settle numberToString toFixed k out st = None"

text \<open>
  The events of the single-threaded loop: the user clicks the button (a disabled button
  dispatches no click; a handler that raises leaves the state as it was) or picks a
  language, the recognition engine calls one of the four handlers (installed only when
  the object exists), or the request at some position of the pending ones settles.
\<close>

datatype 'n event =
    Click
  | Select string
  | OnStart
  | OnEnd
  | OnError string
  | OnResult string
  | Settled nat "'n response outcome"

fun fire ::
  "(string \<Rightarrow> string) \<Rightarrow> ('n \<Rightarrow> string) \<Rightarrow> ('n \<Rightarrow> nat \<Rightarrow> string) \<Rightarrow> 'n event \<Rightarrow> page \<Rightarrow> page option" where
  "fire trim numberToString toFixed Click st =
     (if startMic_disabled st then None
      else (case click st of Inl e \<Rightarrow> Some st | Inr st' \<Rightarrow> Some st'))"
| "fire trim numberToString toFixed (Select v) st = Some (st\<lparr>languageSelect := v\<rparr>)"
| "fire trim numberToString toFixed OnStart st =
     (if recognition st = None then None else Some (onstart st))"
| "fire trim numberToString toFixed OnEnd st =
     (if recognition st = None then None else Some (onend st))"
| "fire trim numberToString toFixed (OnError event_error) st =
     (if recognition st = None then None else Some (onerror event_error st))"
| "fire trim numberToString toFixed (OnResult event_transcript) st =
     (if recognition st = None then None else Some (onresult trim event_transcript st))"
| "fire trim numberToString toFixed (Settled i out) st =
     (if i < length (pending st) then
        settle numberToString toFixed (snd (pending st ! i)) out
          (st\<lparr>pending := take i (pending st) @ drop (Suc i) (pending st)\<rparr>)
      else None)"

inductive reachable ::
  "(string \<Rightarrow> string) \<Rightarrow> ('n \<Rightarrow> string) \<Rightarrow> ('n \<Rightarrow> nat \<Rightarrow> string) \<Rightarrow> page \<Rightarrow> bool"
  for trim :: "string \<Rightarrow> string" and numberToString :: "'n \<Rightarrow> string"
    and toFixed :: "'n \<Rightarrow> nat \<Rightarrow> string" where
  loaded: "reachable trim numberToString toFixed (load ctor doc)"
| fired: "reachable trim numberToString toFixed st \<Longrightarrow>
          fire trim numberToString toFixed e st = Some st' \<Longrightarrow>
          reachable trim numberToString toFixed st'"


section \<open>Notions of the properties\<close>

text \<open>
  The list item that \<^verbatim>\<open>createElement("li")\<close> and an assignment to its
  \<^verbatim>\<open>textContent\<close> build.
\<close>

definition li_of :: "string \<Rightarrow> node" where
  "li_of s = set_textContent s (createElement ''li'')"

text \<open>
  Text that the parser reads as one text node and that the serialiser writes back
  unchanged: no markup character, no character that the tokenizer rewrites, no no-break
  space.
\<close>

fun plain_text :: "string \<Rightarrow> bool" where
  "plain_text [] = True"
| "plain_text (c # cs) =
     (c \<noteq> CHR ''<'' \<and> c \<noteq> CHR ''>'' \<and> c \<noteq> CHR ''&'' \<and> c \<noteq> CHR 0x00 \<and> c \<noteq> CHR 0x0D
      \<and> (c = CHR 0xC2 \<and> take 1 cs = [CHR 0xA0]) = False \<and> plain_text cs)"

text \<open>A page for the examples: an empty document with the English option selected.\<close>

definition blank :: page where
  "blank =
     \<lparr>startMicButton = microphone @ '' Start Listening'', startMic_disabled = False,
      languageSelect = ''en'', shoppingList = [], suggestionsList = [], searchResults = [],
      statusMessage = [], recognition = None, listening = False, engine_calls = [],
      pending = [], console = [], alerts = []\<rparr>"


text \<open>
  Numbers for the examples. A number of the script is a double; on a natural number up
  to \<open>2^53\<close>, which a double holds exactly, \<^verbatim>\<open>toString()\<close> prints the decimal
  digits and \<^verbatim>\<open>toFixed(d)\<close> adds a point and \<open>d\<close> zeros. The two functions below
  are these printers on such numbers only (above \<open>2^53\<close> a double rounds, and from
  \<open>10^21\<close> on it is printed with an exponent); the examples use them at 2, 3 and 4.
\<close>

definition toString_nat :: "nat \<Rightarrow> string" where
  "toString_nat n = decimal n"

definition toFixed_nat :: "nat \<Rightarrow> nat \<Rightarrow> string" where
  "toFixed_nat n d = decimal n @ (if d = 0 then [] else ''.'' @ replicate d CHR ''0'')"


text \<open>
  The configuration that the script gives the recognition object, and the locale tags
  that its starts carry.
\<close>

definition well_configured :: "page \<Rightarrow> bool" where
  "well_configured st \<longleftrightarrow>
     (\<forall>r. recognition st = Some r \<longrightarrow> continuous r = False \<and> interimResults r = False) \<and>
     (\<forall>r. Start r \<in> set (engine_calls st) \<longrightarrow>
        continuous r = False \<and> interimResults r = False \<and>
        (lang r = ''en-US'' \<or> lang r = ''es-ES''))"

text \<open>
  Pages for the examples: the script loaded on the blank page in a browser whose new
  recognition objects have both flags set, once while the engine listens and once with
  the Spanish option picked.
\<close>

definition listening_page :: page where
  "listening_page =
     onstart (load (Some \<lparr>continuous = True, interimResults = True, lang = []\<rparr>) blank)"

definition spanish_page :: page where
  "spanish_page =
     (load (Some \<lparr>continuous = True, interimResults = True, lang = []\<rparr>) blank)
       \<lparr>languageSelect := ''es''\<rparr>"


section \<open>The parser on the markup of the script\<close>

lemma escape_plain: "plain_text s \<Longrightarrow> escape s = s"
  by (induction s rule: escape.induct) (auto split: if_splits)

lemma parse_data_plain:
  "plain_text s \<Longrightarrow>
   parse_from stk kids (Data acc) (s @ rest) = parse_from stk kids (Data (acc @ s)) rest"
  by (induction s arbitrary: acc) (auto simp: data_char_def)

lemma parseHTML_empty: "parseHTML [] = Some []"
  by (simp add: parseHTML_def flush_def)

lemma parseHTML_no_items:
  "parseHTML ''<li>No items yet.</li>'' = Some [Element ''li'' [Text ''No items yet.'']]"
  by (simp add: parseHTML_def flush_def data_char_def)

lemma parseHTML_no_results:
  "parseHTML ''<li>No results found.</li>'' = Some [Element ''li'' [Text ''No results found.'']]"
  by (simp add: parseHTML_def flush_def data_char_def)


lemma parseHTML_heading:
  "plain_text h \<Longrightarrow> h \<noteq> [] \<Longrightarrow>
   parseHTML (''<li><strong>'' @ h @ ''</strong></li>'')
     = Some [Element ''li'' [Element ''strong'' [Text h]]]"
  by (simp add: parseHTML_def parse_data_plain flush_def)

lemma parseHTML_heading_no_suggestions:
  "plain_text h \<Longrightarrow> h \<noteq> [] \<Longrightarrow>
   parseHTML (innerHTML [Element ''li'' [Element ''strong'' [Text h]]]
                @ ''<li>No suggestions available.</li>'')
     = Some [Element ''li'' [Element ''strong'' [Text h]],
             Element ''li'' [Text ''No suggestions available.'']]"
  by (simp add: parseHTML_def innerHTML_def escape_plain parse_data_plain flush_def data_char_def)

lemma li_of_text: "s \<noteq> [] \<Longrightarrow> li_of s = Element ''li'' [Text s]"
  by (simp add: li_of_def createElement_def)


section \<open>What the renderers compute\<close>

lemma forEach_shoppingList:
  "forEach (\<lambda>x st. st\<lparr>shoppingList := appendChild (f x) (shoppingList st)\<rparr>) xs st
     = st\<lparr>shoppingList := shoppingList st @ map f xs\<rparr>"
  unfolding forEach_def by (induction xs arbitrary: st) (simp_all add: appendChild_def)

lemma forEach_suggestionsList:
  "forEach (\<lambda>x st. st\<lparr>suggestionsList := appendChild (f x) (suggestionsList st)\<rparr>) xs st
     = st\<lparr>suggestionsList := suggestionsList st @ map f xs\<rparr>"
  unfolding forEach_def by (induction xs arbitrary: st) (simp_all add: appendChild_def)

lemma forEach_searchResults:
  "forEach (\<lambda>x st. st\<lparr>searchResults := appendChild (f x) (searchResults st)\<rparr>) xs st
     = st\<lparr>searchResults := searchResults st @ map f xs\<rparr>"
  unfolding forEach_def by (induction xs arbitrary: st) (simp_all add: appendChild_def)

lemma refreshShoppingList_then_eq:
  "refreshShoppingList_then numberToString items st =
     Some (st\<lparr>shoppingList :=
             (if items = [] then [Element ''li'' [Text ''No items yet.'']]
              else map (\<lambda>item. Element ''li''
                          [Text (item_name item @ '' ('' @ ToString numberToString (quantity item) @ '')'')])
                     items)\<rparr>)"
  by (simp add: refreshShoppingList_then_def parseHTML_empty parseHTML_no_items Let_def
      forEach_shoppingList createElement_def)

lemma updateSearchResults_eq:
  "updateSearchResults toFixed results st =
     Some (st\<lparr>searchResults :=
             map (\<lambda>product. Element ''li''
                    [Text (product_name product @ '' ('' @ brand product @ '') - $''
                             @ toFixed (price product) 2)]) results\<rparr>)"
  by (simp add: updateSearchResults_def parseHTML_empty Let_def forEach_searchResults
      createElement_def)


lemma updateSuggestions_heading:
  "plain_text heading \<Longrightarrow> heading \<noteq> [] \<Longrightarrow>
   updateSuggestions items heading st =
     Some (st\<lparr>suggestionsList :=
             Element ''li'' [Element ''strong'' [Text heading]] #
             (if items = [] then [Element ''li'' [Text ''No suggestions available.'']]
              else map li_of items)\<rparr>)"
  by (simp add: updateSuggestions_def parseHTML_heading [simplified]
      parseHTML_heading_no_suggestions Let_def forEach_suggestionsList li_of_def)

lemma searchProducts_then_eq:
  "searchProducts_then toFixed text data st =
     Some (if search_status data = ''success'' \<and> found_items data \<noteq> [] then
             st\<lparr>searchResults :=
                  map (\<lambda>product. Element ''li''
                         [Text (product_name product @ '' ('' @ brand product @ '') - $''
                                  @ toFixed (price product) 2)]) (found_items data),
                statusMessage :=
                  magnifying_glass @ '' Found '' @ decimal (length (found_items data))
                    @ '' result(s).''\<rparr>
           else
             st\<lparr>searchResults := [Element ''li'' [Text ''No results found.'']],
                statusMessage := cross_mark @ '' Nothing found for: '' @ dquote @ text @ dquote\<rparr>)"
  by (simp add: searchProducts_then_def updateSearchResults_eq parseHTML_no_results Let_def)

lemma loadSuggestions_then_eq:
  "loadSuggestions_then data st =
     Some (st\<lparr>suggestionsList :=
             Element ''li'' [Element ''strong'' [Text ''Smart Suggestions:'']] #
             (if seasonal_suggestions data @ frequently_bought data = []
              then [Element ''li'' [Text ''No suggestions available.'']]
              else map li_of (seasonal_suggestions data @ frequently_bought data))\<rparr>)"
  unfolding loadSuggestions_then_def Let_def
  by (subst updateSuggestions_heading) simp_all

lemma processVoiceCommand_then_eq:
  "processVoiceCommand_then text language data st =
     Some (if status data = ''success'' then
             st\<lparr>statusMessage := check_mark @ '' '' @ message data,
                suggestionsList :=
                  (case substitute_suggestions data of
                     None \<Rightarrow> suggestionsList st
                   | Some subs \<Rightarrow>
                       Element ''li'' [Element ''strong'' [Text ''Suggested substitutes:'']] #
                       (if subs = [] then [Element ''li'' [Text ''No suggestions available.'']]
                        else map li_of subs)),
                pending := pending st @ [(GET ''/list'', ListThen)]\<rparr>
           else
             st\<lparr>statusMessage := thinking_face @ '' Trying search instead...'',
                pending := pending st @ [(POST ''/search'' text language, SearchThen text language)]\<rparr>)"
proof -
  have sub: "\<And>subs s. updateSuggestions subs ''Suggested substitutes:'' s =
      Some (s\<lparr>suggestionsList :=
              Element ''li'' [Element ''strong'' [Text ''Suggested substitutes:'']] #
              (if subs = [] then [Element ''li'' [Text ''No suggestions available.'']]
               else map li_of subs)\<rparr>)"
    by (subst updateSuggestions_heading) simp_all
  show ?thesis
    by (cases "substitute_suggestions data")
       (simp_all add: processVoiceCommand_then_def sub Let_def refreshShoppingList_def
          searchProducts_def fetch_def)
qed


section \<open>What the handlers leave alone\<close>

lemma settle_frame:
  "settle numberToString toFixed k out st = Some st' \<Longrightarrow>
   startMicButton st' = startMicButton st \<and> startMic_disabled st' = startMic_disabled st \<and>
   languageSelect st' = languageSelect st \<and> recognition st' = recognition st \<and>
   listening st' = listening st \<and> engine_calls st' = engine_calls st \<and> alerts st' = alerts st"
  by (induction numberToString toFixed k out st rule: settle.induct)
     (auto simp: processVoiceCommand_then_eq processVoiceCommand_catch_def searchProducts_then_eq
        searchProducts_catch_def refreshShoppingList_then_eq loadSuggestions_then_eq Let_def
        split: if_splits)

lemma click_frame:
  "click st = Inr st' \<Longrightarrow>
   startMicButton st' = startMicButton st \<and> startMic_disabled st' = startMic_disabled st \<and>
   languageSelect st' = languageSelect st \<and> listening st' = listening st \<and>
   statusMessage st' = statusMessage st \<and> pending st' = pending st"
  by (auto simp: click_def Let_def split: if_splits option.splits)

lemma onresult_frame:
  "startMicButton (onresult trim t st) = startMicButton st \<and>
   recognition (onresult trim t st) = recognition st \<and>
   engine_calls (onresult trim t st) = engine_calls st \<and>
   listening (onresult trim t st) = listening st"
  by (simp add: onresult_def processVoiceCommand_def fetch_def Let_def)

lemma idle_label_not_stop: "stop_sign @ '' Stop'' \<noteq> microphone @ '' Start Listening''"
  by (simp add: stop_sign_def microphone_def)

lemma fire_keeps_label:
  "fire trim numberToString toFixed ev st = Some st' \<Longrightarrow> ev \<noteq> OnEnd \<Longrightarrow> ev \<noteq> OnStart \<Longrightarrow>
   startMicButton st' = startMicButton st"
  by (cases ev)
     (auto simp: click_frame onresult_frame onerror_def dest: settle_frame
        split: if_splits sum.splits)

lemma transport_failure_caught:
  "settle numberToString toFixed (VoiceCommandThen text language) Rejected st =
     Some (st\<lparr>console := console st @ [''Error handling command:''],
             statusMessage := cross_mark @ '' Failed to process voice command.''\<rparr>) \<and>
   settle numberToString toFixed (SearchThen text language) Rejected st =
     Some (st\<lparr>console := console st @ [''Search error:''],
             statusMessage := cross_mark @ '' Search failed.''\<rparr>)"
  by (simp add: processVoiceCommand_catch_def searchProducts_catch_def Let_def)


section \<open>The configuration of the recognition object is invariant\<close>

lemma load_well_configured: "well_configured (load ctor doc)"
  by (cases ctor)
     (simp_all add: well_configured_def load_def Let_def refreshShoppingList_def
        loadSuggestions_def fetch_def)

lemma click_well_configured:
  "well_configured st \<Longrightarrow> click st = Inr st' \<Longrightarrow> well_configured st'"
  by (auto simp: well_configured_def click_def Let_def split: if_splits option.splits)

lemma fire_well_configured:
  assumes "well_configured st" and "fire trim numberToString toFixed e st = Some st'"
  shows "well_configured st'"
proof (cases e)
  case Click
  with assms show ?thesis
    by (auto simp: click_well_configured split: if_splits sum.splits)
next
  case (Settled i out)
  with assms(2) have "recognition st' = recognition st \<and> engine_calls st' = engine_calls st"
    by (auto dest: settle_frame split: if_splits)
  with assms(1) show ?thesis
    by (simp add: well_configured_def)
next
  case (OnResult t)
  with assms show ?thesis
    by (auto simp: well_configured_def onresult_frame split: if_splits)
qed (use assms in \<open>auto simp: well_configured_def onstart_def onend_def onerror_def split: if_splits\<close>)

lemma reachable_well_configured:
  "reachable trim numberToString toFixed st \<Longrightarrow> well_configured st"
  by (induction rule: reachable.induct) (auto intro: load_well_configured fire_well_configured)


section \<open>Evaluation of the examples\<close>




section \<open>Search results (C1)\<close>





section \<open>Fallback to the search (C2)\<close>

text \<open>
  Claim C2. \<^verbatim>\<open>processVoiceCommand(text)\<close> sends one \<^verbatim>\<open>POST /voice-command\<close> with the
  text and the language selected at that moment. When the response does not have the
  status \<^verbatim>\<open>"success"\<close>, its callback, in whatever state \<open>st'\<close> the page is by then
  (the selected language may have changed), sends one \<^verbatim>\<open>POST /search\<close> with the same
  text and the same language as that first request.
\<close>

theorem search_fallback:
  assumes "status data \<noteq> ''success''"
  shows "pending (processVoiceCommand text st) =
       pending st @ [(POST ''/voice-command'' text (languageSelect st),
                      VoiceCommandThen text (languageSelect st))] \<and>
     (\<exists>st''. settle numberToString toFixed (VoiceCommandThen text (languageSelect st))
               (Fulfilled (CommandResult data)) st' = Some st'' \<and>
            pending st'' =
              pending st' @ [(POST ''/search'' text (languageSelect st),
                              SearchThen text (languageSelect st))])"
  using assms
  by (simp add: processVoiceCommand_def fetch_def Let_def processVoiceCommand_then_eq)

theorem search_fallback_witness:
  "status \<lparr>status = ''error'', message = ''Not understood'', substitute_suggestions = None\<rparr>
     \<noteq> ''success'' \<and>
   pending (processVoiceCommand ''find apples'' blank) =
     [(POST ''/voice-command'' ''find apples'' ''en'', VoiceCommandThen ''find apples'' ''en'')] \<and>
   map_option pending
     (fire id toString_nat toFixed_nat
        (Settled 0 (Fulfilled (CommandResult
           \<lparr>status = ''error'', message = ''Not understood'', substitute_suggestions = None\<rparr>)))
        ((processVoiceCommand ''find apples'' blank)\<lparr>languageSelect := ''es''\<rparr>))
     = Some [(POST ''/search'' ''find apples'' ''en'', SearchThen ''find apples'' ''en'')]"
  using search_fallback
    [of "\<lparr>status = ''error'', message = ''Not understood'', substitute_suggestions = None\<rparr>"
      "''find apples''" blank toString_nat toFixed_nat "blank\<lparr>languageSelect := ''es''\<rparr>"]
  by (auto simp: blank_def processVoiceCommand_def fetch_def Let_def)


section \<open>The shopping list (C3)\<close>




section \<open>The three renderers (C4)\<close>




section \<open>Transport failures (C5)\<close>

text \<open>
  Claim C5 asks that a rejected request to \<^verbatim>\<open>/voice-command\<close>, \<^verbatim>\<open>/search\<close> or
  \<^verbatim>\<open>/list\<close> ends in a generic failure text on the status line. The chains of the first
  two end in a \<^verbatim>\<open>catch\<close> that writes it. The chain of \<^verbatim>\<open>refreshShoppingList\<close> has
  none: when \<^verbatim>\<open>GET /list\<close> is rejected after a command has succeeded, the status
  line keeps the text of the success and nothing is logged.
\<close>

theorem list_rejection_unhandled:
  "map_option statusMessage
     (fire id toString_nat toFixed_nat (Settled 0 Rejected)
        (refreshShoppingList (blank\<lparr>statusMessage := check_mark @ '' Added milk''\<rparr>)))
     = Some (check_mark @ '' Added milk'') \<and>
   map_option console
     (fire id toString_nat toFixed_nat (Settled 0 Rejected)
        (refreshShoppingList (blank\<lparr>statusMessage := check_mark @ '' Added milk''\<rparr>)))
     = Some [] \<and>
   map_option statusMessage
     (fire id toString_nat toFixed_nat (Settled 0 Rejected)
        (processVoiceCommand ''add milk'' (blank\<lparr>statusMessage := check_mark @ '' Added milk''\<rparr>)))
     = Some (cross_mark @ '' Failed to process voice command.'') \<and>
   map_option statusMessage
     (fire id toString_nat toFixed_nat (Settled 0 Rejected)
        (searchProducts ''milk'' ''en'' (blank\<lparr>statusMessage := check_mark @ '' Added milk''\<rparr>)))
     = Some (cross_mark @ '' Search failed.'')"
  by (simp add: blank_def refreshShoppingList_def processVoiceCommand_def searchProducts_def
      fetch_def Let_def processVoiceCommand_catch_def searchProducts_catch_def)


section \<open>A successful command (C6)\<close>




section \<open>Recognition errors (C7)\<close>

text \<open>
  Claim C7. On every error event of the recognition engine the status text becomes the
  warning sign followed by \<^verbatim>\<open> Error: \<close> and the error code of the event, and the
  listening flag becomes false.
\<close>

theorem error_sets_status:
  "statusMessage (onerror event_error st) = warning_sign @ '' Error: '' @ event_error \<and>
   listening (onerror event_error st) = False \<and>
   (recognition st \<noteq> None \<longrightarrow>
      fire trim numberToString toFixed (OnError event_error) st = Some (onerror event_error st))"
  by (simp add: onerror_def)

theorem error_sets_status_witness:
  "listening listening_page = True \<and>
   map_option statusMessage (fire id toString_nat toFixed_nat (OnError ''no-speech'') listening_page)
     = Some (warning_sign @ '' Error: no-speech'') \<and>
   map_option listening (fire id toString_nat toFixed_nat (OnError ''no-speech'') listening_page)
     = Some False"
  using error_sets_status [of "''no-speech''" listening_page id toString_nat toFixed_nat]
  by (simp add: listening_page_def onstart_def onerror_def load_def Let_def
      refreshShoppingList_def loadSuggestions_def fetch_def)


section \<open>Configuration and locale of the recognition (C8)\<close>

text \<open>
  Claim C8. The script sets \<^verbatim>\<open>continuous\<close> and \<^verbatim>\<open>interimResults\<close> of the new
  recognition object to false, and in every state that the page can reach they are still
  false, also at every call of \<^verbatim>\<open>start()\<close>. Every call of \<^verbatim>\<open>start()\<close> is made with
  the locale tag \<^verbatim>\<open>en-US\<close> or \<^verbatim>\<open>es-ES\<close>: a click while not listening assigns
  \<^verbatim>\<open>es-ES\<close> when the value of the language control is \<^verbatim>\<open>es\<close> and \<^verbatim>\<open>en-US\<close> for
  every other value, and then starts.
\<close>

theorem recognition_configuration:
  assumes "reachable trim numberToString toFixed st"
  shows "recognition (load (Some r0) doc) = Some (r0\<lparr>continuous := False, interimResults := False\<rparr>) \<and>
     (recognition st = Some r \<longrightarrow> continuous r = False \<and> interimResults r = False) \<and>
     (Start r' \<in> set (engine_calls st) \<longrightarrow>
        continuous r' = False \<and> interimResults r' = False \<and>
        (lang r' = ''en-US'' \<or> lang r' = ''es-ES'')) \<and>
     (recognition st = Some r \<and> \<not> listening st \<longrightarrow>
        click st =
          Inr (st\<lparr>recognition :=
                    Some (r\<lparr>lang := (if languageSelect st = ''es'' then ''es-ES'' else ''en-US'')\<rparr>),
                  engine_calls := engine_calls st @
                    [Start (r\<lparr>lang := (if languageSelect st = ''es'' then ''es-ES'' else ''en-US'')\<rparr>)]\<rparr>))"
proof -
  have "well_configured st"
    using assms by (rule reachable_well_configured)
  then have "recognition st = Some r \<longrightarrow> continuous r = False \<and> interimResults r = False"
    and "Start r' \<in> set (engine_calls st) \<longrightarrow>
        continuous r' = False \<and> interimResults r' = False \<and>
        (lang r' = ''en-US'' \<or> lang r' = ''es-ES'')"
    by (simp_all add: well_configured_def)
  moreover have "recognition (load (Some r0) doc)
      = Some (r0\<lparr>continuous := False, interimResults := False\<rparr>)"
    by (simp add: load_def Let_def refreshShoppingList_def loadSuggestions_def fetch_def)
  moreover have "recognition st = Some r \<and> \<not> listening st \<longrightarrow>
        click st =
          Inr (st\<lparr>recognition :=
                    Some (r\<lparr>lang := (if languageSelect st = ''es'' then ''es-ES'' else ''en-US'')\<rparr>),
                  engine_calls := engine_calls st @
                    [Start (r\<lparr>lang := (if languageSelect st = ''es'' then ''es-ES'' else ''en-US'')\<rparr>)]\<rparr>)"
    by (simp add: click_def Let_def)
  ultimately show ?thesis by blast
qed

theorem recognition_configuration_witness:
  "reachable id toString_nat toFixed_nat spanish_page \<and>
   recognition spanish_page = Some \<lparr>continuous = False, interimResults = False, lang = []\<rparr> \<and>
   listening spanish_page = False \<and>
   click spanish_page =
     Inr (spanish_page
            \<lparr>recognition := Some \<lparr>continuous = False, interimResults = False, lang = ''es-ES''\<rparr>,
             engine_calls := [Start \<lparr>continuous = False, interimResults = False, lang = ''es-ES''\<rparr>]\<rparr>)"
proof -
  have r: "reachable id toString_nat toFixed_nat spanish_page"
    unfolding spanish_page_def
    by (rule reachable.fired [OF reachable.loaded, where e = "Select ''es''"]) simp
  have s: "recognition spanish_page = Some \<lparr>continuous = False, interimResults = False, lang = []\<rparr>"
      "listening spanish_page = False" "languageSelect spanish_page = ''es''"
      "engine_calls spanish_page = []"
    by (simp_all add: spanish_page_def load_def Let_def refreshShoppingList_def
        loadSuggestions_def fetch_def)
  have "click spanish_page =
     Inr (spanish_page
            \<lparr>recognition := Some \<lparr>continuous = False, interimResults = False, lang = ''es-ES''\<rparr>,
             engine_calls := [Start \<lparr>continuous = False, interimResults = False, lang = ''es-ES''\<rparr>]\<rparr>)"
    using recognition_configuration [OF r,
        of "\<lparr>continuous = True, interimResults = True, lang = []\<rparr>" blank
           "\<lparr>continuous = False, interimResults = False, lang = []\<rparr>"
           "\<lparr>continuous = False, interimResults = False, lang = []\<rparr>"] s
    by simp
  with r s show ?thesis by simp
qed


section \<open>The heading of the suggestions (C9)\<close>

text \<open>
  Claim C9. When \<^verbatim>\<open>updateSuggestions\<close> is called with a non-empty heading of plain
  text, as both of its callers do, the first entry of the suggestions container is the
  list item that holds the heading in a \<^verbatim>\<open>strong\<close> element, and the entries of the
  suggestions follow it. For the empty sequence the container therefore holds exactly
  two entries: the heading and the placeholder \<^verbatim>\<open>No suggestions available.\<close>
\<close>

theorem heading_first:
  assumes "heading \<noteq> []" and "plain_text heading"
  shows "\<exists>st'. updateSuggestions items heading st = Some st' \<and>
     hd (suggestionsList st') = Element ''li'' [Element ''strong'' [Text heading]] \<and>
     tl (suggestionsList st') =
       (if items = [] then [Element ''li'' [Text ''No suggestions available.'']]
        else map li_of items) \<and>
     (items = [] \<longrightarrow> length (suggestionsList st') = 2)"
  using assms by (simp add: updateSuggestions_heading)

theorem heading_first_witness:
  "plain_text ''Smart Suggestions:'' \<and> plain_text ''Suggested substitutes:'' \<and>
   map_option suggestionsList (updateSuggestions [] ''Smart Suggestions:'' blank)
     = Some [Element ''li'' [Element ''strong'' [Text ''Smart Suggestions:'']],
             Element ''li'' [Text ''No suggestions available.'']] \<and>
   map_option suggestionsList (updateSuggestions [''oat milk''] ''Suggested substitutes:'' blank)
     = Some [Element ''li'' [Element ''strong'' [Text ''Suggested substitutes:'']],
             Element ''li'' [Text ''oat milk'']]"
proof -
  have p: "plain_text ''Smart Suggestions:''" "plain_text ''Suggested substitutes:''"
    by simp_all
  have n: "''Smart Suggestions:'' \<noteq> []" "''Suggested substitutes:'' \<noteq> []"
    by simp_all
  from heading_first [OF n(1) p(1), of "[]" blank]
    heading_first [OF n(2) p(2), of "[''oat milk'']" blank]
  show ?thesis
    by (auto simp: li_of_def createElement_def updateSuggestions_heading)
qed


section \<open>The label of the button after an error (C10)\<close>

text \<open>
  Claim C10. The error handler changes the status text and the listening flag and
  nothing else: after an error event the label of the button is what it was before.
  The end handler sets the idle label, the microphone followed by
  \<^verbatim>\<open> Start Listening\<close>, and no other event of the page makes a label that was not the
  idle one into the idle one.
\<close>

theorem error_keeps_button_label:
  "startMicButton (onerror event_error st) = startMicButton st \<and>
   onerror event_error st =
     st\<lparr>statusMessage := statusMessage (onerror event_error st),
        listening := listening (onerror event_error st)\<rparr> \<and>
   startMicButton (onend st) = microphone @ '' Start Listening'' \<and>
   (fire trim numberToString toFixed ev st = Some st' \<and> ev \<noteq> OnEnd \<and>
      startMicButton st \<noteq> microphone @ '' Start Listening''
    \<longrightarrow> startMicButton st' \<noteq> microphone @ '' Start Listening'')"
proof -
  have "startMicButton st' \<noteq> microphone @ '' Start Listening''"
    if "fire trim numberToString toFixed ev st = Some st'" "ev \<noteq> OnEnd"
      "startMicButton st \<noteq> microphone @ '' Start Listening''"
  proof (cases "ev = OnStart")
    case True
    with that(1) show ?thesis
      by (auto simp: onstart_def idle_label_not_stop split: if_splits)
  next
    case False
    with that show ?thesis
      using fire_keeps_label [of trim numberToString toFixed ev st st'] by simp
  qed
  then show ?thesis
    by (auto simp: onerror_def onend_def)
qed

theorem error_keeps_button_label_witness:
  "startMicButton listening_page = stop_sign @ '' Stop'' \<and>
   fire id toString_nat toFixed_nat (OnError ''no-speech'') listening_page
     = Some (onerror ''no-speech'' listening_page) \<and>
   startMicButton (onerror ''no-speech'' listening_page) = stop_sign @ '' Stop'' \<and>
   startMicButton (onerror ''no-speech'' listening_page) \<noteq> microphone @ '' Start Listening'' \<and>
   startMicButton (onend (onerror ''no-speech'' listening_page)) = microphone @ '' Start Listening''"
  using error_keeps_button_label [of "''no-speech''" listening_page id toString_nat toFixed_nat
      "OnError ''no-speech''" "onerror ''no-speech'' listening_page"]
  by (simp add: listening_page_def onstart_def onerror_def onend_def load_def Let_def
      refreshShoppingList_def loadSuggestions_def fetch_def idle_label_not_stop)

end
